theory Spec2Isabelle
  imports Main
begin

section \<open>Tokens (lexer/tokens.py)\<close>

text \<open>
  A token is the named tuple \<^verbatim>\<open>Token(type, value, line, column)\<close>. The type is
  one of the strings below or, for the parser, the text of a keyword, operator or
  delimiter. The value is a Python object: a string, an integer (the column count of an
  indentation token) or \<^verbatim>\<open>None\<close>.
\<close>

datatype pyval = PStr string | PInt int | PNone

datatype token = Token (tok_type: string) (tok_value: pyval) (line: int) (column: int)

definition ENDMARKER :: string where "ENDMARKER = ''endmarker''"
definition NEWLINE :: string where "NEWLINE = ''newline''"
definition INDENT :: string where "INDENT = ''indent''"
definition DEDENT :: string where "DEDENT = ''dedent''"
definition ID :: string where "ID = ''id''"
definition KEYWORDS :: string where "KEYWORDS = ''keywords''"
definition NUMBER :: string where "NUMBER = ''number''"
definition STRING :: string where "STRING = ''string''"
definition BYTES :: string where "BYTES = ''bytes''"
definition OPERATOR :: string where "OPERATOR = ''operator''"
definition DELIMITER :: string where "DELIMITER = ''delimiter''"

text \<open>The three frozen sets of the module, in the order of their text.\<close>

definition operator :: "string list" where
  "operator =
    [''+'', ''-'', ''*'', ''**'', ''/'', ''//'', ''%'',
     ''<<'', ''>>'', ''&'', ''|'', ''^'', ''~'',
     ''<'', ''>'', ''<='', ''>='', ''=='', ''!='']"

definition delimiter :: "string list" where
  "delimiter =
    [''('', '')'', ''['', '']'', ''{'', ''}'',
     '','', '':'', ''.'', '';'', ''@'', ''='', ''->'',
     ''+='', ''-='', ''*='', ''/='', ''//='', ''%='',
     ''&='', ''|='', ''^='', ''>>='', ''<<='', ''**='']"

definition keywords_set :: "string list" where
  "keywords_set =
    [''False'', ''class'', ''finally'', ''is'', ''return'',
     ''None'', ''continue'', ''for'', ''lambda'', ''try'',
     ''True'', ''def'', ''from'', ''nonlocal'', ''while'',
     ''and'', ''del'', ''global'', ''not'', ''with'',
     ''as'', ''elif'', ''if'', ''or'', ''yield'',
     ''assert'', ''else'', ''import'', ''pass'',
     ''break'', ''except'', ''in'', ''raise'']"

text \<open>
  Exceptions. \<open>InvalidSyntax tok need\<close> is the \<^verbatim>\<open>Exception\<close> of \<^verbatim>\<open>Parser.error\<close>:
  its message names the current token and, when the wanted type is truthy, that type.
  \<open>KeyError s\<close> is raised by \<^verbatim>\<open>iskeyword\<close>; \<open>AttributeError\<close> and
  \<open>TypeError\<close> are the interpreter's own (an attribute of \<^verbatim>\<open>None\<close>, \<^verbatim>\<open>in\<close> with a
  string on the right and something else on the left).
\<close>

datatype error =
    InvalidSyntax token "pyval option"
  | IndentationError
  | AttributeError
  | TypeError
  | KeyError string

text \<open>
  \<^verbatim>\<open>iskeyword\<close>. The list \<^verbatim>\<open>keyword.kwlist\<close> belongs to the Python standard library
  and depends on the interpreter's version, so it is an argument.
\<close>

definition iskeyword :: "string list \<Rightarrow> string \<Rightarrow> error + bool" where
  "iskeyword kwlist string =
     (if string \<in> set keywords_set then Inr True
      else if string \<in> set kwlist then Inl (KeyError string)
      else Inr False)"

text \<open>\<^verbatim>\<open>keyword.kwlist\<close> of CPython 3.7 and later: the 33 words above, \<^verbatim>\<open>async\<close> and \<^verbatim>\<open>await\<close>.\<close>

definition kwlist_py37 :: "string list" where
  "kwlist_py37 = keywords_set @ [''async'', ''await'']"

section \<open>Python operations on token values\<close>

text \<open>
  \<^verbatim>\<open>x in s\<close> for a string \<open>s\<close> is the substring test when \<open>x\<close> is a string and a
  \<^verbatim>\<open>TypeError\<close> otherwise.
\<close>

fun startswith :: "string \<Rightarrow> string \<Rightarrow> bool" where
  "startswith s [] = True"
| "startswith [] (c # cs) = False"
| "startswith (d # ds) (c # cs) = (d = c \<and> startswith ds cs)"

fun str_contains :: "string \<Rightarrow> string \<Rightarrow> bool" where
  "str_contains [] x = (x = [])"
| "str_contains (c # cs) x = (startswith (c # cs) x \<or> str_contains cs x)"

definition in_str :: "pyval \<Rightarrow> string \<Rightarrow> error + bool" where
  "in_str x s = (case x of PStr t \<Rightarrow> Inr (str_contains s t) | _ \<Rightarrow> Inl TypeError)"

text \<open>\<^verbatim>\<open>x in tokens.operator\<close>: membership in a frozen set of strings; never raises.\<close>

definition in_operator :: "pyval \<Rightarrow> bool" where
  "in_operator x = (case x of PStr t \<Rightarrow> t \<in> set operator | _ \<Rightarrow> False)"

text \<open>Truthiness, as \<^verbatim>\<open>if type:\<close> in \<^verbatim>\<open>Parser.error\<close> tests it.\<close>

definition truthy :: "pyval \<Rightarrow> bool" where
  "truthy x = (case x of PStr t \<Rightarrow> t \<noteq> [] | PInt i \<Rightarrow> i \<noteq> 0 | PNone \<Rightarrow> False)"

section \<open>The token source\<close>

text \<open>
  Modelled from the spec: \<^verbatim>\<open>lexer.PeekTokenLexer\<close> is not among the sources. By the
  token stream contract, \<^verbatim>\<open>next_token()\<close> returns the next token and advances, and
  returns the end marker forever after the end of input; \<^verbatim>\<open>peek_token()\<close> returns the
  next token without consuming it, or \<^verbatim>\<open>None\<close> when no further token exists. The
  state is the list of tokens not yet delivered and the lexer's end marker.
\<close>

record lexer_state =
  pending :: "token list"
  endmarker :: token

definition next_token :: "lexer_state \<Rightarrow> token \<times> lexer_state" where
  "next_token lx =
     (case pending lx of
        [] \<Rightarrow> (endmarker lx, lx)
      | t # ts \<Rightarrow> (t, lx\<lparr>pending := ts\<rparr>))"

definition peek_token :: "lexer_state \<Rightarrow> token option" where
  "peek_token lx = (case pending lx of [] \<Rightarrow> None | t # ts \<Rightarrow> Some t)"

section \<open>Syntax trees\<close>

text \<open>
  Modelled from the spec: \<^verbatim>\<open>robin.ast\<close> is not among the sources. The nodes are
  passive data; each constructor takes the arguments the parser passes, in the order of
  the class's fields. \<open>PyNone\<close> is Python's \<^verbatim>\<open>None\<close> where the parser puts it in a
  node's place.
\<close>

datatype node =
    Program node
  | FunctionDef node "node list" node
  | Block "node list"
  | FunctionCall node "node list"
  | While node token node
  | If_node node token node node
  | EmptyOp
  | Assign node token node
  | Var token
  | Op node token node
  | UnaryOp token node
  | Num token
  | Bool token
  | RegularStr token
  | PyNone

section \<open>The parser (robin/parser.py)\<close>

record parser =
  lexer :: lexer_state
  indent :: int
  current_token :: token

text \<open>
  The value of the program's configuration that the sources do not hold:
  \<^verbatim>\<open>robin.settings.INDENT_LENGTH\<close>.
\<close>

record settings =
  INDENT_LENGTH :: int

text \<open>
  A method returns \<open>None\<close> when its fuel is used up, \<open>Some (Inl e)\<close> when it raises
  \<open>e\<close>, and \<open>Some (Inr (x, p))\<close> when it returns \<open>x\<close> and leaves the parser in state
  \<open>p\<close>. Fuel bounds the depth of calls and the number of loop iterations; the methods
  that neither recurse nor loop always answer \<open>Some\<close>.
\<close>

type_synonym 'a result = "(error + 'a \<times> parser) option"

definition ret :: "'a \<Rightarrow> parser \<Rightarrow> 'a result" where
  "ret x p = Some (Inr (x, p))"

definition raise :: "error \<Rightarrow> 'a result" where
  "raise e = Some (Inl e)"

definition pbind :: "'a result \<Rightarrow> ('a \<Rightarrow> parser \<Rightarrow> 'b result) \<Rightarrow> 'b result" where
  "pbind m f =
     (case m of
        None \<Rightarrow> None
      | Some (Inl e) \<Rightarrow> Some (Inl e)
      | Some (Inr (x, p)) \<Rightarrow> f x p)"

definition Parser :: "lexer_state \<Rightarrow> parser" where
  "Parser lx = (case next_token lx of (t, lx') \<Rightarrow> \<lparr>lexer = lx', indent = 0, current_token = t\<rparr>)"

definition error :: "pyval \<Rightarrow> parser \<Rightarrow> 'a result" where
  "error ty p = raise (InvalidSyntax (current_token p) (if truthy ty then Some ty else None))"

text \<open>\<^verbatim>\<open>self.current_token = self.lexer.next_token()\<close>\<close>

definition advance :: "parser \<Rightarrow> parser" where
  "advance p = (case next_token (lexer p) of (t, lx') \<Rightarrow> p\<lparr>current_token := t, lexer := lx'\<rparr>)"

definition eat :: "pyval \<Rightarrow> parser \<Rightarrow> unit result" where
  "eat ty p =
     (if PStr (tok_type (current_token p)) = ty then ret () (advance p)
      else error ty p)"

definition check_indent :: "settings \<Rightarrow> parser \<Rightarrow> bool" where
  "check_indent st p =
     (if indent p = 0 then True
      else if tok_type (current_token p) \<noteq> INDENT then False
      else if PInt (indent p * INDENT_LENGTH st) \<noteq> tok_value (current_token p) then False
      else True)"

definition eat_indent :: "settings \<Rightarrow> parser \<Rightarrow> unit result" where
  "eat_indent st p =
     (if tok_type (current_token p) = INDENT
      then (if PInt (indent p * INDENT_LENGTH st) \<noteq> tok_value (current_token p)
            then raise IndentationError
            else eat (PStr INDENT) p)
      else ret () p)"

definition empty :: "parser \<Rightarrow> node result" where
  "empty p =
     (if tok_type (current_token p) = NEWLINE
      then pbind (eat (PStr NEWLINE) p) (\<lambda>_ p. ret EmptyOp p)
      else ret EmptyOp p)"

definition variable :: "parser \<Rightarrow> node result" where
  "variable p =
     (let vartoken = current_token p
      in pbind (eat (PStr ID) p) (\<lambda>_ p. ret (Var vartoken) p))"

text \<open>
  Expressions. Every loop is a function of its own, named after the method with
  \<open>_loop\<close>; it takes the loop's variables and tests the condition first.
\<close>

function (sequential) factor :: "nat \<Rightarrow> parser \<Rightarrow> node result"
  and function_call :: "nat \<Rightarrow> parser \<Rightarrow> node result"
  and argument_list :: "nat \<Rightarrow> parser \<Rightarrow> node list result"
  and argument_list_loop :: "nat \<Rightarrow> node list \<Rightarrow> parser \<Rightarrow> node list result"
  and expr :: "nat \<Rightarrow> parser \<Rightarrow> node result"
  and expr_loop :: "nat \<Rightarrow> node \<Rightarrow> parser \<Rightarrow> node result"
  and term_plus_minus :: "nat \<Rightarrow> parser \<Rightarrow> node result"
  and term_plus_minus_loop :: "nat \<Rightarrow> node \<Rightarrow> parser \<Rightarrow> node result"
  and term_mul_div :: "nat \<Rightarrow> parser \<Rightarrow> node result"
  and term_mul_div_loop :: "nat \<Rightarrow> node \<Rightarrow> parser \<Rightarrow> node result"
where
  "factor 0 p = None"
| "factor (Suc n) p =
     (let tok = current_token p in
      if str_contains ''+-'' (tok_type tok) then
        (if tok_type tok = ''+'' then
           pbind (eat (PStr ''+'') p) (\<lambda>_ p.
           pbind (factor n p) (\<lambda>e p. ret (UnaryOp tok e) p))
         else if tok_value tok = PStr ''-'' then
           pbind (eat (PStr ''-'') p) (\<lambda>_ p.
           pbind (factor n p) (\<lambda>e p. ret (UnaryOp tok e) p))
         else ret PyNone p)
      else if tok_type tok = NUMBER then
        pbind (eat (PStr (tok_type tok)) p) (\<lambda>_ p. ret (Num tok) p)
      else if tok_type tok = ID then
        (case peek_token (lexer p) of
           None \<Rightarrow> raise AttributeError
         | Some t \<Rightarrow> if tok_type t = ''('' then function_call n p else variable p)
      else if tok_type tok = ''('' then
        pbind (eat (PStr ''('') p) (\<lambda>_ p.
        pbind (expr n p) (\<lambda>e p.
        pbind (eat (PStr '')'') p) (\<lambda>_ p. ret e p)))
      else if tok_type tok = ''True'' \<or> tok_type tok = ''False'' then
        pbind (eat (PStr (tok_type tok)) p) (\<lambda>_ p. ret (Bool tok) p)
      else if tok_type tok = STRING then
        pbind (eat (PStr STRING) p) (\<lambda>_ p. ret (RegularStr tok) p)
      else ret PyNone p)"
| "function_call 0 p = None"
| "function_call (Suc n) p =
     pbind (variable p) (\<lambda>fun_name p.
     pbind (argument_list n p) (\<lambda>arg_list p.
     ret (FunctionCall fun_name arg_list) p))"
| "argument_list 0 p = None"
| "argument_list (Suc n) p =
     pbind (eat (PStr ''('') p) (\<lambda>_ p.
     pbind (if tok_value (current_token p) \<noteq> PStr '')''
            then pbind (expr n p) (\<lambda>a p. argument_list_loop n [a] p)
            else ret [] p) (\<lambda>args p.
     pbind (eat (PStr '')'') p) (\<lambda>_ p. ret args p)))"
| "argument_list_loop 0 args p = None"
| "argument_list_loop (Suc n) args p =
     (if tok_value (current_token p) = PStr '','' then
        pbind (eat (PStr '','') p) (\<lambda>_ p.
        pbind (expr n p) (\<lambda>a p. argument_list_loop n (args @ [a]) p))
      else ret args p)"
| "expr 0 p = None"
| "expr (Suc n) p = pbind (term_plus_minus n p) (\<lambda>node p. expr_loop n node p)"
| "expr_loop 0 node p = None"
| "expr_loop (Suc n) node p =
     (if in_operator (tok_value (current_token p)) then
        (let op = current_token p in
         pbind (eat (tok_value op) p) (\<lambda>_ p.
         pbind (term_plus_minus n p) (\<lambda>right p. expr_loop n (Op node op right) p)))
      else ret node p)"
| "term_plus_minus 0 p = None"
| "term_plus_minus (Suc n) p =
     pbind (term_mul_div n p) (\<lambda>node p. term_plus_minus_loop n node p)"
| "term_plus_minus_loop 0 node p = None"
| "term_plus_minus_loop (Suc n) node p =
     (case in_str (tok_value (current_token p)) ''+-'' of
        Inl e \<Rightarrow> raise e
      | Inr True \<Rightarrow>
          (let op = current_token p in
           pbind (eat (PStr (tok_type op)) p) (\<lambda>_ p.
           pbind (term_mul_div n p) (\<lambda>right p.
           term_plus_minus_loop n (Op node op right) p)))
      | Inr False \<Rightarrow> ret node p)"
| "term_mul_div 0 p = None"
| "term_mul_div (Suc n) p =
     pbind (factor n p) (\<lambda>node p. term_mul_div_loop n node p)"
| "term_mul_div_loop 0 node p = None"
| "term_mul_div_loop (Suc n) node p =
     (case in_str (tok_value (current_token p)) ''*/'' of
        Inl e \<Rightarrow> raise e
      | Inr True \<Rightarrow>
          (let op = current_token p in
           pbind (eat (tok_value op) p) (\<lambda>_ p.
           pbind (factor n p) (\<lambda>right p.
           term_mul_div_loop n (Op node op right) p)))
      | Inr False \<Rightarrow> ret node p)"
  by pat_completeness auto
termination
  by (relation "measure (case_sum
        (case_sum (case_sum fst fst) (case_sum fst (case_sum fst fst)))
        (case_sum (case_sum fst fst) (case_sum fst (case_sum fst fst))))") auto

fun assign_statement :: "nat \<Rightarrow> parser \<Rightarrow> node result" where
  "assign_statement 0 p = None"
| "assign_statement (Suc n) p =
     pbind (variable p) (\<lambda>left p.
     (let token = current_token p in
      pbind (eat (PStr ''='') p) (\<lambda>_ p.
      pbind (expr n p) (\<lambda>right p.
      pbind (eat (PStr NEWLINE) p) (\<lambda>_ p.
      ret (Assign left token right) p)))))"

text \<open>
  Three names that the parser reads and the tokens module does not provide. The module
  declares no \<^verbatim>\<open>EOF\<close>, so evaluating \<^verbatim>\<open>tokens.EOF\<close> raises \<^verbatim>\<open>AttributeError\<close>. Its
  \<^verbatim>\<open>keywords\<close> and \<^verbatim>\<open>delimiter\<close> are frozen sets: a frozen set has no attribute \<^verbatim>\<open>IF\<close>,
  \<^verbatim>\<open>WHILE\<close>, \<^verbatim>\<open>DEF\<close> or \<^verbatim>\<open>ELSE\<close>, so \<^verbatim>\<open>tokens.keywords.IF\<close> raises \<^verbatim>\<open>AttributeError\<close>,
  and it has no items, so \<^verbatim>\<open>tokens.delimiter['(']\<close> raises \<^verbatim>\<open>TypeError\<close>. Each
  expression is the exception that its evaluation raises. \<open>pyeval v f\<close> evaluates such
  an expression and goes on with its value, or raises.
\<close>

definition tokens_EOF :: "error + pyval" where
  "tokens_EOF = Inl AttributeError"

definition keywords_attr :: "string \<Rightarrow> error + pyval" where
  "keywords_attr name = Inl AttributeError"

definition delimiter_item :: "string \<Rightarrow> error + pyval" where
  "delimiter_item key = Inl TypeError"

definition pyeval :: "error + 'a \<Rightarrow> ('a \<Rightarrow> 'b result) \<Rightarrow> 'b result" where
  "pyeval v f = (case v of Inl e \<Rightarrow> raise e | Inr x \<Rightarrow> f x)"

text \<open>Statements and blocks. The counter \<open>indent\<close> is a field of the parser's state.\<close>

function (sequential) block :: "nat \<Rightarrow> settings \<Rightarrow> parser \<Rightarrow> node result"
  and block_loop :: "nat \<Rightarrow> settings \<Rightarrow> node list \<Rightarrow> parser \<Rightarrow> node result"
  and statement :: "nat \<Rightarrow> settings \<Rightarrow> parser \<Rightarrow> node result"
  and function_def :: "nat \<Rightarrow> settings \<Rightarrow> parser \<Rightarrow> node result"
  and while_statement :: "nat \<Rightarrow> settings \<Rightarrow> parser \<Rightarrow> node result"
  and if_statement :: "nat \<Rightarrow> settings \<Rightarrow> parser \<Rightarrow> node result"
  and elif_statement :: "nat \<Rightarrow> settings \<Rightarrow> parser \<Rightarrow> node result"
where
  "block 0 st p = None"
| "block (Suc n) st p = block_loop n st [] p"
| "block_loop 0 st result p = None"
| "block_loop (Suc n) st result p =
     (if check_indent st p then
        pyeval tokens_EOF (\<lambda>eof_value.
        if tok_value (current_token p) \<noteq> eof_value then
          pbind (eat_indent st p) (\<lambda>_ p.
          pbind (statement n st p) (\<lambda>s p. block_loop n st (result @ [s]) p))
        else ret (Block result) p)
      else ret (Block result) p)"
| "statement 0 st p = None"
| "statement (Suc n) st p =
     (if tok_type (current_token p) = ID then
        (case peek_token (lexer p) of
           None \<Rightarrow> empty p
         | Some t \<Rightarrow>
             pyeval (delimiter_item ''('') (\<lambda>lparen.
             if tok_value t = lparen then
               pbind (function_call n p) (\<lambda>statement p.
               pbind (eat (PStr NEWLINE) p) (\<lambda>_ p. ret statement p))
             else
               pyeval (delimiter_item ''='') (\<lambda>assign.
               if tok_value t = assign then assign_statement n p
               else empty p)))
      else
        pyeval (keywords_attr ''IF'') (\<lambda>kw_if.
        if tok_value (current_token p) = kw_if then if_statement n st p
        else
          pyeval (keywords_attr ''WHILE'') (\<lambda>kw_while.
          if tok_value (current_token p) = kw_while then while_statement n st p
          else
            pyeval (keywords_attr ''DEF'') (\<lambda>kw_def.
            if tok_value (current_token p) = kw_def then function_def n st p
            else empty p))))"
| "function_def 0 st p = None"
| "function_def (Suc n) st p =
     pbind (eat (PStr ''def'') p) (\<lambda>_ p.
     pbind (variable p) (\<lambda>name p.
     pbind (argument_list n p) (\<lambda>params p.
     pbind (eat (PStr '':'') p) (\<lambda>_ p.
     pbind (eat (PStr NEWLINE) p) (\<lambda>_ p.
     pbind (block n st (p\<lparr>indent := indent p + 1\<rparr>)) (\<lambda>block p.
     ret (FunctionDef name params block) (p\<lparr>indent := indent p - 1\<rparr>)))))))"
| "while_statement 0 st p = None"
| "while_statement (Suc n) st p =
     (let token = current_token p in
      pbind (eat (PStr ''while'') p) (\<lambda>_ p.
      pbind (expr n p) (\<lambda>condition p.
      pbind (eat (PStr '':'') p) (\<lambda>_ p.
      pbind (eat (PStr NEWLINE) p) (\<lambda>_ p.
      pbind (block n st (p\<lparr>indent := indent p + 1\<rparr>)) (\<lambda>right_block p.
      ret (While condition token right_block) (p\<lparr>indent := indent p - 1\<rparr>)))))))"
| "if_statement 0 st p = None"
| "if_statement (Suc n) st p =
     (let token = current_token p in
      pbind (eat (PStr ''if'') p) (\<lambda>_ p.
      pbind (expr n p) (\<lambda>condition p.
      pbind (eat (PStr '':'') p) (\<lambda>_ p.
      pbind (eat (PStr NEWLINE) p) (\<lambda>_ p.
      pbind (block n st (p\<lparr>indent := indent p + 1\<rparr>)) (\<lambda>right_block p.
      pbind (elif_statement n st (p\<lparr>indent := indent p - 1\<rparr>)) (\<lambda>wrong_block p.
      ret (If_node condition token right_block wrong_block) p)))))))"
| "elif_statement 0 st p = None"
| "elif_statement (Suc n) st p =
     (if tok_value (current_token p) = PStr ''elif'' then
        (let token = current_token p in
         pbind (eat (PStr ''elif'') p) (\<lambda>_ p.
         pbind (expr n p) (\<lambda>condition p.
         pbind (eat (PStr '':'') p) (\<lambda>_ p.
         pbind (eat (PStr NEWLINE) p) (\<lambda>_ p.
         pbind (block n st (p\<lparr>indent := indent p + 1\<rparr>)) (\<lambda>right_block p.
         pbind (elif_statement n st (p\<lparr>indent := indent p - 1\<rparr>)) (\<lambda>wrong_block p.
         ret (If_node condition token right_block wrong_block) p)))))))
      else
        pyeval (keywords_attr ''ELSE'') (\<lambda>kw_else.
        if tok_value (current_token p) = kw_else then
          pbind (eat (PStr ''else'') p) (\<lambda>_ p.
          pbind (eat (PStr '':'') p) (\<lambda>_ p.
          pbind (eat (PStr NEWLINE) p) (\<lambda>_ p.
          pbind (block n st (p\<lparr>indent := indent p + 1\<rparr>)) (\<lambda>block p.
          ret block (p\<lparr>indent := indent p - 1\<rparr>)))))
        else empty p))"
  by pat_completeness auto
termination
  by (relation "measure (case_sum
        (case_sum fst (case_sum fst fst))
        (case_sum (case_sum fst fst) (case_sum fst fst)))") auto

fun program :: "nat \<Rightarrow> settings \<Rightarrow> parser \<Rightarrow> node result" where
  "program 0 st p = None"
| "program (Suc n) st p = pbind (block n st p) (\<lambda>b p. ret (Program b) p)"

fun parse :: "nat \<Rightarrow> settings \<Rightarrow> parser \<Rightarrow> node result" where
  "parse 0 st p = None"
| "parse (Suc n) st p = program n st p"

section \<open>Inputs\<close>

text \<open>
  \<open>parser_at ts em i\<close> is the parser's state when the tokens \<open>ts\<close> are still to be
  read, the first of them being the current token, at nesting depth \<open>i\<close>; \<open>em\<close> is the
  lexer's end marker. \<open>parser_at ts em 0\<close> is \<^verbatim>\<open>Parser(lexer)\<close> on a fresh lexer.
\<close>

definition parser_at :: "token list \<Rightarrow> token \<Rightarrow> int \<Rightarrow> parser" where
  "parser_at ts em i = (Parser \<lparr>pending = ts, endmarker = em\<rparr>)\<lparr>indent := i\<rparr>"

text \<open>
  The parser asks for the text of an operator, a delimiter or a keyword both as the
  token's type (\<^verbatim>\<open>eat('(')\<close>, \<^verbatim>\<open>type == '+'\<close>) and as its value (\<^verbatim>\<open>value == '-'\<close>,
  \<^verbatim>\<open>value == 'elif'\<close>): \<open>is_sym s t\<close> says that \<open>t\<close> is such a token for the text \<open>s\<close>.
\<close>

definition is_sym :: "string \<Rightarrow> token \<Rightarrow> bool" where
  "is_sym s t \<longleftrightarrow> tok_type t = s \<and> tok_value t = PStr s"

text \<open>
  A token after which no loop of the expression methods goes on: its value is a string
  that is neither inside \<^verbatim>\<open>'*/'\<close> or \<^verbatim>\<open>'+-'\<close> nor a member of \<^verbatim>\<open>tokens.operator\<close>.
\<close>

definition ends_expr :: "token \<Rightarrow> bool" where
  "ends_expr t \<longleftrightarrow>
     (case tok_value t of
        PStr v \<Rightarrow> \<not> str_contains ''*/'' v \<and> \<not> str_contains ''+-'' v \<and> v \<notin> set operator
      | _ \<Rightarrow> False)"

text \<open>Tokens and settings for the examples.\<close>

definition sym :: "string \<Rightarrow> token" where
  "sym s = Token s (PStr s) 1 0"

definition number :: "string \<Rightarrow> token" where
  "number s = Token NUMBER (PStr s) 1 0"

definition ident :: "string \<Rightarrow> token" where
  "ident s = Token ID (PStr s) 1 0"

definition newline :: token where
  "newline = Token NEWLINE (PStr [CHR 0x0A]) 1 0"

definition indent_of :: "int \<Rightarrow> token" where
  "indent_of c = Token INDENT (PInt c) 1 0"

definition eof :: token where
  "eof = Token ENDMARKER (PStr ''EOF'') 1 0"

definition settings4 :: settings where
  "settings4 = \<lparr>INDENT_LENGTH = 4\<rparr>"

text \<open>
  The order of answers by fuel: \<open>fuel_le a b\<close> when \<open>a\<close> ran out of fuel or \<open>b\<close> is the
  same answer.
\<close>

definition fuel_le :: "'a option \<Rightarrow> 'a option \<Rightarrow> bool" where
  "fuel_le a b \<longleftrightarrow> (a = None \<or> a = b)"

section \<open>Example statements\<close>

text \<open>The tokens of an \<^verbatim>\<open>if\<close>, an \<^verbatim>\<open>elif\<close> and an \<^verbatim>\<open>else\<close> branch with one assignment each.\<close>

definition assign_tokens :: "string \<Rightarrow> token list" where
  "assign_tokens v = [indent_of 4, ident ''x'', sym ''='', number v, newline]"

definition else_tokens :: "token list" where
  "else_tokens = [sym ''else'', sym '':'', newline] @ assign_tokens ''3''"

definition elif_tokens :: "token list" where
  "elif_tokens = [sym ''elif'', ident ''b'', sym '':'', newline] @ assign_tokens ''2''"

definition if_tokens :: "token list" where
  "if_tokens = [sym ''if'', ident ''a'', sym '':'', newline] @ assign_tokens ''1''"

section \<open>Evaluation\<close>

lemmas token_kinds =
  ENDMARKER_def NEWLINE_def INDENT_def DEDENT_def ID_def KEYWORDS_def NUMBER_def
  STRING_def BYTES_def OPERATOR_def DELIMITER_def

lemma parser_at_Cons:
  "current_token (parser_at (t # ts) em i) = t"
  "lexer (parser_at (t # ts) em i) = \<lparr>pending = ts, endmarker = em\<rparr>"
  "advance (parser_at (t # ts) em i) = parser_at ts em i"
  by (simp_all add: parser_at_def Parser_def next_token_def advance_def split: list.splits)

lemma parser_at_Nil:
  "current_token (parser_at [] em i) = em"
  "lexer (parser_at [] em i) = \<lparr>pending = [], endmarker = em\<rparr>"
  "advance (parser_at [] em i) = parser_at [] em i"
  by (simp_all add: parser_at_def Parser_def next_token_def advance_def)

lemma parser_at_indent:
  "indent (parser_at ts em i) = i"
  "(parser_at ts em i)\<lparr>indent := j\<rparr> = parser_at ts em j"
  by (simp_all add: parser_at_def Parser_def next_token_def split: list.splits prod.splits)

lemma peek_token_simps:
  "peek_token \<lparr>pending = [], endmarker = em\<rparr> = None"
  "peek_token \<lparr>pending = t # ts, endmarker = em\<rparr> = Some t"
  by (simp_all add: peek_token_def)

lemmas run_simps =
  parser_at_Cons parser_at_Nil parser_at_indent peek_token_simps
  eat_def error_def pbind_def ret_def raise_def variable_def empty_def in_str_def
  in_operator_def truthy_def token_kinds

lemmas example_tokens =
  sym_def number_def ident_def newline_def indent_of_def eof_def settings4_def
  is_sym_def ends_expr_def operator_def

section \<open>Indentation\<close>

text \<open>
  C3. \<open>check_indent\<close> answers true exactly when the indentation counter is 0, or the
  current token is an indentation token whose value is the counter times
  \<open>INDENT_LENGTH\<close>; otherwise it answers false.
\<close>

theorem check_indent_iff:
  "check_indent st p \<longleftrightarrow>
     indent p = 0 \<or>
     (tok_type (current_token p) = INDENT \<and>
      tok_value (current_token p) = PInt (indent p * INDENT_LENGTH st))"
  by (auto simp: check_indent_def)

theorem check_indent_iff_witness:
  "check_indent settings4 (parser_at [ident ''x''] eof 0) \<and>
   check_indent settings4 (parser_at [indent_of 8, ident ''x''] eof 2) \<and>
   \<not> check_indent settings4 (parser_at [indent_of 4, ident ''x''] eof 2) \<and>
   \<not> check_indent settings4 (parser_at [ident ''x''] eof 1)"
  using check_indent_iff [of settings4 "parser_at [ident ''x''] eof 0"]
    check_indent_iff [of settings4 "parser_at [indent_of 8, ident ''x''] eof 2"]
    check_indent_iff [of settings4 "parser_at [indent_of 4, ident ''x''] eof 2"]
    check_indent_iff [of settings4 "parser_at [ident ''x''] eof 1"]
  by (simp add: run_simps example_tokens)

text \<open>
  C4. When the current token is an indentation token, \<open>eat_indent\<close> raises
  \<open>IndentationError\<close> if the token's value differs from the counter times
  \<open>INDENT_LENGTH\<close>, and otherwise consumes that one token: the current token becomes
  what \<open>next_token\<close> delivers. When the current token is no indentation token,
  \<open>eat_indent\<close> returns with the state unchanged.
\<close>

theorem eat_indent_cases:
  "(tok_type (current_token p) = INDENT \<and>
    tok_value (current_token p) \<noteq> PInt (indent p * INDENT_LENGTH st)
      \<longrightarrow> eat_indent st p = Some (Inl IndentationError)) \<and>
   (tok_type (current_token p) = INDENT \<and>
    tok_value (current_token p) = PInt (indent p * INDENT_LENGTH st)
      \<longrightarrow> eat_indent st p =
            Some (Inr ((), p\<lparr>current_token := fst (next_token (lexer p)),
                              lexer := snd (next_token (lexer p))\<rparr>))) \<and>
   (tok_type (current_token p) \<noteq> INDENT \<longrightarrow> eat_indent st p = Some (Inr ((), p)))"
  by (auto simp: eat_indent_def eat_def ret_def raise_def advance_def split: prod.splits)

theorem eat_indent_cases_witness:
  "eat_indent settings4 (parser_at [indent_of 4, ident ''x''] eof 2) = Some (Inl IndentationError) \<and>
   eat_indent settings4 (parser_at [indent_of 8, ident ''x''] eof 2)
     = Some (Inr ((), parser_at [ident ''x''] eof 2)) \<and>
   eat_indent settings4 (parser_at [ident ''x''] eof 0)
     = Some (Inr ((), parser_at [ident ''x''] eof 0))"
  using eat_indent_cases [of "parser_at [indent_of 4, ident ''x''] eof 2" settings4]
    eat_indent_cases [of "parser_at [indent_of 8, ident ''x''] eof 2" settings4]
    eat_indent_cases [of "parser_at [ident ''x''] eof 0" settings4]
  by (simp add: run_simps example_tokens next_token_def parser_at_def Parser_def)

section \<open>Keywords\<close>

text \<open>
  C7. \<open>iskeyword\<close> returns true for a string of the module's keyword set, raises
  \<open>KeyError\<close> itself, at the call, for any other string of \<^verbatim>\<open>keyword.kwlist\<close>, and
  returns false for every other string.
\<close>

theorem iskeyword_cases:
  "(s \<in> set keywords_set \<longrightarrow> iskeyword kwlist s = Inr True) \<and>
   (s \<notin> set keywords_set \<and> s \<in> set kwlist \<longrightarrow> iskeyword kwlist s = Inl (KeyError s)) \<and>
   (s \<notin> set keywords_set \<and> s \<notin> set kwlist \<longrightarrow> iskeyword kwlist s = Inr False)"
  by (simp add: iskeyword_def)

theorem iskeyword_cases_witness:
  "iskeyword kwlist_py37 ''elif'' = Inr True \<and>
   iskeyword kwlist_py37 ''async'' = Inl (KeyError ''async'') \<and>
   iskeyword kwlist_py37 ''foo'' = Inr False"
  using iskeyword_cases [of "''elif''" kwlist_py37]
    iskeyword_cases [of "''async''" kwlist_py37]
    iskeyword_cases [of "''foo''" kwlist_py37]
  by (simp add: kwlist_py37_def keywords_set_def)

section \<open>Expressions\<close>

text \<open>
  C8. On the tokens of \<^verbatim>\<open>- - 3\<close>, whatever follows them, \<open>factor\<close> returns a \<open>UnaryOp\<close>
  whose operand is a \<open>UnaryOp\<close> whose operand is the \<open>Num\<close> of the number token, having
  consumed the three tokens.
\<close>

theorem factor_unary_chain:
  assumes "is_sym ''-'' m1" and "is_sym ''-'' m2" and "tok_type t3 = NUMBER"
  shows "factor (Suc (Suc (Suc n))) (parser_at (m1 # m2 # t3 # rest) em i)
     = Some (Inr (UnaryOp m1 (UnaryOp m2 (Num t3)), parser_at rest em i))"
  using assms by (simp add: run_simps is_sym_def)

theorem factor_unary_chain_witness:
  "factor 3 (parser_at [sym ''-'', sym ''-'', number ''3''] eof 0)
     = Some (Inr (UnaryOp (sym ''-'') (UnaryOp (sym ''-'') (Num (number ''3''))),
                  parser_at [] eof 0))"
  using factor_unary_chain [of "sym ''-''" "sym ''-''" "number ''3''" 0 "[]" eof 0]
  by (simp add: example_tokens token_kinds numeral_3_eq_3)

text \<open>
  C2. On the tokens of \<^verbatim>\<open>1 + 2 * 3\<close>, \<open>expr\<close> returns the \<open>Op\<close> of the addition whose
  right child is the \<open>Op\<close> of the multiplication. On the tokens of \<^verbatim>\<open>(1 + 2) * 3\<close> it
  returns the \<open>Op\<close> of the multiplication whose left child is the \<open>Op\<close> of the addition.
  In both cases the token that follows ends an expression.
\<close>

theorem expr_precedence:
  assumes "tok_type n1 = NUMBER" and "tok_type n2 = NUMBER" and "tok_type n3 = NUMBER"
    and "is_sym ''+'' pl" and "is_sym ''*'' ti"
    and "is_sym ''('' lpar" and "is_sym '')'' rpar"
    and "ends_expr (current_token (parser_at rest em i))"
  shows "expr (Suc (Suc (Suc (Suc (Suc (Suc (Suc (Suc (Suc k)))))))))
           (parser_at (n1 # pl # n2 # ti # n3 # rest) em i)
         = Some (Inr (Op (Num n1) pl (Op (Num n2) ti (Num n3)), parser_at rest em i)) \<and>
         expr (Suc (Suc (Suc (Suc (Suc (Suc (Suc (Suc (Suc k)))))))))
           (parser_at (lpar # n1 # pl # n2 # rpar # ti # n3 # rest) em i)
         = Some (Inr (Op (Op (Num n1) pl (Num n2)) ti (Num n3), parser_at rest em i))"
  using assms
  by (simp add: run_simps is_sym_def ends_expr_def operator_def split: pyval.splits)

theorem expr_precedence_witness:
  "expr 9 (parser_at [number ''1'', sym ''+'', number ''2'', sym ''*'', number ''3'', newline] eof 0)
     = Some (Inr (Op (Num (number ''1'')) (sym ''+'')
                    (Op (Num (number ''2'')) (sym ''*'') (Num (number ''3''))),
                  parser_at [newline] eof 0)) \<and>
   expr 9 (parser_at [sym ''('', number ''1'', sym ''+'', number ''2'', sym '')'', sym ''*'',
                      number ''3'', newline] eof 0)
     = Some (Inr (Op (Op (Num (number ''1'')) (sym ''+'') (Num (number ''2'')))
                    (sym ''*'') (Num (number ''3'')),
                  parser_at [newline] eof 0))"
  using expr_precedence [of "number ''1''" "number ''2''" "number ''3''" "sym ''+''" "sym ''*''"
      "sym ''(''" "sym '')''" "[newline]" eof 0 0]
  by (simp add: example_tokens token_kinds parser_at_Cons eval_nat_numeral)

section \<open>Fuel\<close>

text \<open>More fuel never changes an answer: a method that answers with some fuel gives the same
  answer with any larger fuel.\<close>

lemma fuel_le_refl: "fuel_le a a"
  by (simp add: fuel_le_def)

lemma fuel_le_None: "fuel_le None a"
  by (simp add: fuel_le_def)

lemma fuel_le_pbind:
  "fuel_le a a' \<Longrightarrow> (\<And>x q. fuel_le (f x q) (f' x q)) \<Longrightarrow> fuel_le (pbind a f) (pbind a' f')"
  by (auto simp: fuel_le_def pbind_def split: option.splits sum.splits)

lemma fuel_le_if:
  "(c \<Longrightarrow> fuel_le a a') \<Longrightarrow> (\<not> c \<Longrightarrow> fuel_le b b') \<Longrightarrow>
   fuel_le (if c then a else b) (if c then a' else b')"
  by simp

lemma fuel_le_case_option:
  "fuel_le a a' \<Longrightarrow> (\<And>t. fuel_le (f t) (f' t)) \<Longrightarrow>
   fuel_le (case_option a f x) (case_option a' f' x)"
  by (cases x) simp_all

lemma fuel_le_case_sum_bool:
  "(\<And>e. fuel_le (f e) (f' e)) \<Longrightarrow> fuel_le a a' \<Longrightarrow> fuel_le b b' \<Longrightarrow>
   fuel_le (case_sum f (\<lambda>c. case_bool a b c) x) (case_sum f' (\<lambda>c. case_bool a' b' c) x)"
  by (cases x) (simp_all split: bool.splits)

lemma fuel_le_pyeval:
  "(\<And>x. fuel_le (f x) (f' x)) \<Longrightarrow> fuel_le (pyeval v f) (pyeval v f')"
  by (cases v) (simp_all add: pyeval_def fuel_le_refl)

lemmas fuel_le_intros =
  fuel_le_refl fuel_le_None fuel_le_pbind fuel_le_if fuel_le_case_option fuel_le_case_sum_bool
  fuel_le_pyeval


lemma expr_fuel_le:
  "(\<forall>p. fuel_le (factor n p) (factor (n + k) p)) \<and>
   (\<forall>p. fuel_le (function_call n p) (function_call (n + k) p)) \<and>
   (\<forall>p. fuel_le (argument_list n p) (argument_list (n + k) p)) \<and>
   (\<forall>args p. fuel_le (argument_list_loop n args p) (argument_list_loop (n + k) args p)) \<and>
   (\<forall>p. fuel_le (expr n p) (expr (n + k) p)) \<and>
   (\<forall>node p. fuel_le (expr_loop n node p) (expr_loop (n + k) node p)) \<and>
   (\<forall>p. fuel_le (term_plus_minus n p) (term_plus_minus (n + k) p)) \<and>
   (\<forall>node p. fuel_le (term_plus_minus_loop n node p) (term_plus_minus_loop (n + k) node p)) \<and>
   (\<forall>p. fuel_le (term_mul_div n p) (term_mul_div (n + k) p)) \<and>
   (\<forall>node p. fuel_le (term_mul_div_loop n node p) (term_mul_div_loop (n + k) node p))"
proof (induction n)
  case 0
  show ?case by (simp add: fuel_le_None)
next
  case (Suc n)
  note IH = Suc.IH [THEN conjunct1, rule_format]
    Suc.IH [THEN conjunct2, THEN conjunct1, rule_format]
    Suc.IH [THEN conjunct2, THEN conjunct2, THEN conjunct1, rule_format]
    Suc.IH [THEN conjunct2, THEN conjunct2, THEN conjunct2, THEN conjunct1, rule_format]
    Suc.IH [THEN conjunct2, THEN conjunct2, THEN conjunct2, THEN conjunct2, THEN conjunct1, rule_format]
    Suc.IH [THEN conjunct2, THEN conjunct2, THEN conjunct2, THEN conjunct2, THEN conjunct2, THEN conjunct1, rule_format]
    Suc.IH [THEN conjunct2, THEN conjunct2, THEN conjunct2, THEN conjunct2, THEN conjunct2, THEN conjunct2, THEN conjunct1, rule_format]
    Suc.IH [THEN conjunct2, THEN conjunct2, THEN conjunct2, THEN conjunct2, THEN conjunct2, THEN conjunct2, THEN conjunct2, THEN conjunct1, rule_format]
    Suc.IH [THEN conjunct2, THEN conjunct2, THEN conjunct2, THEN conjunct2, THEN conjunct2, THEN conjunct2, THEN conjunct2, THEN conjunct2, THEN conjunct1, rule_format]
    Suc.IH [THEN conjunct2, THEN conjunct2, THEN conjunct2, THEN conjunct2, THEN conjunct2, THEN conjunct2, THEN conjunct2, THEN conjunct2, THEN conjunct2, rule_format]
  show ?case
    unfolding add_Suc factor.simps function_call.simps argument_list.simps
      argument_list_loop.simps expr.simps expr_loop.simps term_plus_minus.simps
      term_plus_minus_loop.simps term_mul_div.simps term_mul_div_loop.simps Let_def
    by (intro conjI allI fuel_le_intros IH)
qed

lemma expr_fuel: "fuel_le (expr n p) (expr (n + k) p)"
  and argument_list_fuel: "fuel_le (argument_list n p) (argument_list (n + k) p)"
  and function_call_fuel: "fuel_le (function_call n p) (function_call (n + k) p)"
  using expr_fuel_le [of n k] by simp_all

lemma assign_statement_fuel: "fuel_le (assign_statement n p) (assign_statement (n + k) p)"
proof (cases n)
  case 0
  then show ?thesis by (simp add: fuel_le_None)
next
  case (Suc m)
  show ?thesis
    unfolding Suc add_Suc assign_statement.simps Let_def
    by (intro fuel_le_intros expr_fuel)
qed

lemma stmt_fuel_le:
  "(\<forall>p. fuel_le (block n st p) (block (n + k) st p)) \<and>
   (\<forall>res p. fuel_le (block_loop n st res p) (block_loop (n + k) st res p)) \<and>
   (\<forall>p. fuel_le (statement n st p) (statement (n + k) st p)) \<and>
   (\<forall>p. fuel_le (function_def n st p) (function_def (n + k) st p)) \<and>
   (\<forall>p. fuel_le (while_statement n st p) (while_statement (n + k) st p)) \<and>
   (\<forall>p. fuel_le (if_statement n st p) (if_statement (n + k) st p)) \<and>
   (\<forall>p. fuel_le (elif_statement n st p) (elif_statement (n + k) st p))"
proof (induction n)
  case 0
  show ?case by (simp add: fuel_le_None)
next
  case (Suc n)
  note IH = Suc.IH [THEN conjunct1, rule_format]
    Suc.IH [THEN conjunct2, THEN conjunct1, rule_format]
    Suc.IH [THEN conjunct2, THEN conjunct2, THEN conjunct1, rule_format]
    Suc.IH [THEN conjunct2, THEN conjunct2, THEN conjunct2, THEN conjunct1, rule_format]
    Suc.IH [THEN conjunct2, THEN conjunct2, THEN conjunct2, THEN conjunct2, THEN conjunct1, rule_format]
    Suc.IH [THEN conjunct2, THEN conjunct2, THEN conjunct2, THEN conjunct2, THEN conjunct2, THEN conjunct1, rule_format]
    Suc.IH [THEN conjunct2, THEN conjunct2, THEN conjunct2, THEN conjunct2, THEN conjunct2, THEN conjunct2, rule_format]
  show ?case
    unfolding add_Suc block.simps block_loop.simps statement.simps function_def.simps
      while_statement.simps if_statement.simps elif_statement.simps Let_def
    by (intro conjI allI fuel_le_intros IH expr_fuel argument_list_fuel function_call_fuel
        assign_statement_fuel)
qed

lemma program_fuel: "fuel_le (program n st p) (program (n + k) st p)"
proof (cases n)
  case 0
  then show ?thesis by (simp add: fuel_le_None)
next
  case (Suc m)
  show ?thesis
    unfolding Suc add_Suc program.simps
    by (intro fuel_le_intros stmt_fuel_le [THEN conjunct1, rule_format])
qed

lemma parse_fuel: "fuel_le (parse n st p) (parse (n + k) st p)"
proof (cases n)
  case 0
  then show ?thesis by (simp add: fuel_le_None)
next
  case (Suc m)
  show ?thesis
    unfolding Suc add_Suc parse.simps
    by (rule program_fuel)
qed




section \<open>Missing operands\<close>

lemma factor_no_alternative:
  assumes "\<not> str_contains ''+-'' (tok_type (current_token p))"
    and "tok_type (current_token p) \<notin> {NUMBER, ID, ''('', ''True'', ''False'', STRING}"
  shows "factor (Suc n) p = Some (Inr (PyNone, p))"
  using assms by (simp add: ret_def)

lemma none_operands:
  "(tok_type t1 = NUMBER \<and> is_sym ''+'' pl \<and> tok_type nl = NEWLINE \<and> ends_expr nl \<longrightarrow>
      expr (Suc (Suc (Suc (Suc (Suc k))))) (parser_at (t1 # pl # nl # rest) em i)
        = Some (Inr (Op (Num t1) pl PyNone, parser_at (nl # rest) em i)))"
  "(is_sym ''-'' mi \<and> tok_type nl = NEWLINE \<longrightarrow>
      factor (Suc (Suc k)) (parser_at (mi # nl # rest) em i)
        = Some (Inr (UnaryOp mi PyNone, parser_at (nl # rest) em i)))"
  "(tok_type x = ID \<and> is_sym ''='' eq \<and> tok_type nl = NEWLINE \<and> ends_expr nl \<longrightarrow>
      assign_statement (Suc (Suc (Suc (Suc (Suc k))))) (parser_at (x # eq # nl # rest) em i)
        = Some (Inr (Assign (Var x) eq PyNone, parser_at rest em i)))"
  "(tok_type f = ID \<and> is_sym ''('' lp \<and> is_sym '','' co \<and> is_sym '')'' rp \<longrightarrow>
      function_call (Suc (Suc (Suc (Suc (Suc (Suc (Suc k))))))) (parser_at (f # lp # co # rp # rest) em i)
        = Some (Inr (FunctionCall (Var f) [PyNone, PyNone], parser_at rest em i)))"
  by (simp_all add: run_simps is_sym_def ends_expr_def operator_def split: pyval.splits)

text \<open>
  C10. When the current token's type is none of those \<open>factor\<close> asks for, \<open>factor\<close>
  returns \<^verbatim>\<open>None\<close> without raising and without consuming the token. So \<^verbatim>\<open>1 +\<close> before a
  newline gives an \<open>Op\<close> whose right operand is \<^verbatim>\<open>None\<close>, \<^verbatim>\<open>-\<close> before a newline a
  \<open>UnaryOp\<close> of \<^verbatim>\<open>None\<close>, \<^verbatim>\<open>x =\<close> before a newline an \<open>Assign\<close> of \<^verbatim>\<open>None\<close>, and
  \<^verbatim>\<open>f(,)\<close> a call whose two arguments are \<^verbatim>\<open>None\<close>.
\<close>

theorem factor_returns_None:
  "(\<not> str_contains ''+-'' (tok_type (current_token p)) \<and>
    tok_type (current_token p) \<notin> {NUMBER, ID, ''('', ''True'', ''False'', STRING} \<longrightarrow>
      factor (Suc n) p = Some (Inr (PyNone, p))) \<and>
   (tok_type t1 = NUMBER \<and> is_sym ''+'' pl \<and> tok_type nl = NEWLINE \<and> ends_expr nl \<longrightarrow>
      expr (Suc (Suc (Suc (Suc (Suc k))))) (parser_at (t1 # pl # nl # rest) em i)
        = Some (Inr (Op (Num t1) pl PyNone, parser_at (nl # rest) em i))) \<and>
   (is_sym ''-'' mi \<and> tok_type nl = NEWLINE \<longrightarrow>
      factor (Suc (Suc k)) (parser_at (mi # nl # rest) em i)
        = Some (Inr (UnaryOp mi PyNone, parser_at (nl # rest) em i))) \<and>
   (tok_type x = ID \<and> is_sym ''='' eq \<and> tok_type nl = NEWLINE \<and> ends_expr nl \<longrightarrow>
      assign_statement (Suc (Suc (Suc (Suc (Suc k))))) (parser_at (x # eq # nl # rest) em i)
        = Some (Inr (Assign (Var x) eq PyNone, parser_at rest em i))) \<and>
   (tok_type f = ID \<and> is_sym ''('' lp \<and> is_sym '','' co \<and> is_sym '')'' rp \<longrightarrow>
      function_call (Suc (Suc (Suc (Suc (Suc (Suc (Suc k))))))) (parser_at (f # lp # co # rp # rest) em i)
        = Some (Inr (FunctionCall (Var f) [PyNone, PyNone], parser_at rest em i)))"
proof (intro conjI)
  show "\<not> str_contains ''+-'' (tok_type (current_token p)) \<and>
    tok_type (current_token p) \<notin> {NUMBER, ID, ''('', ''True'', ''False'', STRING} \<longrightarrow>
      factor (Suc n) p = Some (Inr (PyNone, p))"
    using factor_no_alternative [of p n] by (intro impI) (elim conjE)
qed (rule none_operands)+

theorem factor_returns_None_witness:
  "factor 1 (parser_at [] eof 0) = Some (Inr (PyNone, parser_at [] eof 0)) \<and>
   expr 5 (parser_at [number ''1'', sym ''+'', newline] eof 0)
     = Some (Inr (Op (Num (number ''1'')) (sym ''+'') PyNone, parser_at [newline] eof 0)) \<and>
   factor 2 (parser_at [sym ''-'', newline] eof 0)
     = Some (Inr (UnaryOp (sym ''-'') PyNone, parser_at [newline] eof 0)) \<and>
   assign_statement 5 (parser_at [ident ''x'', sym ''='', newline] eof 0)
     = Some (Inr (Assign (Var (ident ''x'')) (sym ''='') PyNone, parser_at [] eof 0)) \<and>
   function_call 7 (parser_at [ident ''f'', sym ''('', sym '','', sym '')''] eof 0)
     = Some (Inr (FunctionCall (Var (ident ''f'')) [PyNone, PyNone], parser_at [] eof 0))"
  using factor_returns_None [where p = "parser_at [] eof 0" and n = 0 and ?t1.0 = "number ''1''"
      and pl = "sym ''+''" and nl = newline and k = 0 and rest = "[]" and em = eof and i = 0
      and mi = "sym ''-''" and x = "ident ''x''" and eq = "sym ''=''" and f = "ident ''f''"
      and lp = "sym ''(''" and co = "sym '',''" and rp = "sym '')''"]
  by (simp add: example_tokens token_kinds parser_at_Nil eval_nat_numeral)

section \<open>The statement dispatcher\<close>


lemma raise_not_Inr [simp]: "raise e \<noteq> Some (Inr r)"
  by (simp add: raise_def)

lemma statement_id_none:
  assumes "tok_type (current_token p) = ID" and "peek_token (lexer p) = None"
  shows "statement (Suc n) st p = Some (Inr (EmptyOp, p))"
  using assms by (simp add: empty_def ret_def token_kinds)

lemma statement_id_lookahead:
  assumes "tok_type (current_token p) = ID" and "peek_token (lexer p) = Some t"
  shows "statement (Suc n) st p = Some (Inl TypeError)"
  using assms by (simp add: delimiter_item_def pyeval_def raise_def)

lemma statement_other_token:
  assumes "tok_type (current_token p) \<noteq> ID"
  shows "statement (Suc n) st p = Some (Inl AttributeError)"
  using assms by (simp add: keywords_attr_def pyeval_def raise_def)

text \<open>
  C1. For a statement that begins with an identifier token, \<open>statement\<close> returns
  \<open>EmptyOp\<close> and consumes nothing when the lexer shows no token ahead. When there is a
  token ahead, whatever its value, \<open>statement\<close> raises \<open>TypeError\<close>: the first test of
  the lookahead evaluates \<^verbatim>\<open>tokens.delimiter['(']\<close>, and \<^verbatim>\<open>tokens.delimiter\<close> is a frozen
  set. So no \<open>FunctionCall\<close>, no \<open>Assign\<close> and no fallback \<open>EmptyOp\<close> is produced for a
  statement with a lookahead, and \<^verbatim>\<open>foo(1, 2)\<close> raises.
\<close>

theorem statement_lookahead_raises:
  "(tok_type (current_token p) = ID \<and> peek_token (lexer p) = None \<longrightarrow>
      statement (Suc n) st p = Some (Inr (EmptyOp, p))) \<and>
   (tok_type (current_token p) = ID \<and> peek_token (lexer p) = Some t \<longrightarrow>
      statement (Suc n) st p = Some (Inl TypeError))"
  using statement_id_none [of p n st] statement_id_lookahead [of p t n st] by blast

theorem statement_lookahead_raises_witness:
  "statement 8 settings4
     (parser_at [ident ''foo'', sym ''('', number ''1'', sym '','', number ''2'', sym '')'', newline] eof 0)
     = Some (Inl TypeError) \<and>
   statement 8 settings4 (parser_at [ident ''foo'', sym ''='', number ''1'', newline] eof 0)
     = Some (Inl TypeError) \<and>
   statement 8 settings4 (parser_at [ident ''foo'', newline] eof 0) = Some (Inl TypeError) \<and>
   statement 8 settings4 (parser_at [ident ''foo''] eof 0)
     = Some (Inr (EmptyOp, parser_at [ident ''foo''] eof 0))"
  using
    statement_lookahead_raises [of
      "parser_at [ident ''foo'', sym ''('', number ''1'', sym '','', number ''2'', sym '')'', newline] eof 0"
      7 settings4 "sym ''(''"]
    statement_lookahead_raises [of
      "parser_at [ident ''foo'', sym ''='', number ''1'', newline] eof 0" 7 settings4 "sym ''=''"]
    statement_lookahead_raises [of "parser_at [ident ''foo'', newline] eof 0" 7 settings4 newline]
    statement_lookahead_raises [of "parser_at [ident ''foo''] eof 0" 7 settings4 newline]
  by (simp add: parser_at_Cons peek_token_simps ident_def token_kinds eval_nat_numeral
      del: statement.simps)

section \<open>A missing colon\<close>






section \<open>Blocks and the alternative of an if\<close>

lemmas chain_tokens = assign_tokens_def else_tokens_def elif_tokens_def if_tokens_def

lemma block_raises:
  assumes "check_indent st p"
  shows "block (Suc (Suc n)) st p = Some (Inl AttributeError)"
  using assms by (simp add: tokens_EOF_def pyeval_def raise_def)

lemma block_empty:
  assumes "\<not> check_indent st p"
  shows "block (Suc (Suc n)) st p = Some (Inr (Block [], p))"
  using assms by (simp add: ret_def)

lemma elif_statement_raises:
  assumes "tok_value (current_token p) \<noteq> PStr ''elif''"
  shows "elif_statement (Suc n) st p = Some (Inl AttributeError)"
  using assms by (simp add: keywords_attr_def pyeval_def raise_def)

lemma if_tokens_raise:
  "if_statement (Suc (Suc (Suc (Suc (Suc n))))) settings4 (parser_at (if_tokens @ rest) eof 0)
     = Some (Inl AttributeError)"
  by (simp add: chain_tokens run_simps example_tokens check_indent_def tokens_EOF_def
      pyeval_def)

text \<open>
  C5. No chain of \<open>If\<close> nodes is built. A block whose indentation matches raises
  \<open>AttributeError\<close> before its first statement, because the loop's test evaluates
  \<^verbatim>\<open>tokens.EOF\<close>; and \<open>elif_statement\<close> raises \<open>AttributeError\<close> at every token whose
  value is not \<^verbatim>\<open>elif\<close>, \<^verbatim>\<open>else\<close> included, because its second test evaluates
  \<^verbatim>\<open>tokens.keywords.ELSE\<close>. So an \<^verbatim>\<open>if\<close> branch with an indented body raises whatever
  follows it, be it any number of \<^verbatim>\<open>elif\<close> branches and an \<^verbatim>\<open>else\<close>.
\<close>

theorem elif_chain_raises:
  "(check_indent st p \<longrightarrow> block (Suc (Suc n)) st p = Some (Inl AttributeError)) \<and>
   (tok_value (current_token p) \<noteq> PStr ''elif'' \<longrightarrow>
      elif_statement (Suc n) st p = Some (Inl AttributeError)) \<and>
   if_statement (Suc (Suc (Suc (Suc (Suc n))))) settings4 (parser_at (if_tokens @ rest) eof 0)
     = Some (Inl AttributeError)"
  using block_raises [of st p n] elif_statement_raises [of p n st] if_tokens_raise [of n rest]
  by blast

theorem elif_chain_raises_witness:
  "block 2 settings4 (parser_at (assign_tokens ''1'') eof 1) = Some (Inl AttributeError) \<and>
   elif_statement 1 settings4 (parser_at else_tokens eof 0) = Some (Inl AttributeError) \<and>
   if_statement 5 settings4 (parser_at (if_tokens @ elif_tokens @ else_tokens) eof 0)
     = Some (Inl AttributeError)"
  using elif_chain_raises [of settings4 "parser_at (assign_tokens ''1'') eof 1" 0
      "elif_tokens @ else_tokens"]
    elif_chain_raises [of settings4 "parser_at else_tokens eof 0" 0 "[]"]
  by (simp add: chain_tokens parser_at_Cons parser_at_indent check_indent_def example_tokens
      token_kinds eval_nat_numeral del: block.simps elif_statement.simps if_statement.simps)






end
